theory Spec2Isabelle
  imports Main "HOL-Library.Word"
begin

section \<open>The example list of the chat frontend (ExampleList.tsx)\<close>

subsection \<open>Data model\<close>

text \<open>
  A JavaScript string is a sequence of UTF-16 code units. Every character of the three
  example questions lies in the Basic Multilingual Plane, so each one is a single unit.
\<close>

type_synonym jsstring = "16 word list"

text \<open>\<^verbatim>\<open>export type ExampleModel = { text: string; value: string; }\<close>\<close>

record ExampleModel =
  "text" :: jsstring
  "value" :: jsstring

text \<open>
  The module-level constant \<^verbatim>\<open>EXAMPLES\<close>: three entries, written in the source as string
  literals; here as their code units.
\<close>

definition EXAMPLES :: "ExampleModel list" where
  "EXAMPLES =
    [\<lparr>text = [0x8ACB, 0x544A, 0x8A34, 0x6211, 0x5C55, 0x7881, 0x570B, 0x969B, 0x7684,
              0x516C, 0x53F8, 0x6982, 0x6CC1],
      value = [0x8ACB, 0x544A, 0x8A34, 0x6211, 0x5C55, 0x7881, 0x570B, 0x969B, 0x7684,
               0x516C, 0x53F8, 0x6982, 0x6CC1]\<rparr>,
     \<lparr>text = [0x5C55, 0x7881, 0x570B, 0x969B, 0x7684, 0x6838, 0x5FC3, 0x50F9, 0x503C, 0x003F],
      value = [0x5C55, 0x7881, 0x570B, 0x969B, 0x7684, 0x6838, 0x5FC3, 0x50F9, 0x503C, 0x003F]\<rparr>,
     \<lparr>text = [0x5C55, 0x7881, 0x570B, 0x969B, 0x7684, 0x8CA0, 0x8CAC, 0x4EBA, 0x662F, 0x003F],
      value = [0x5C55, 0x7881, 0x570B, 0x969B, 0x7684, 0x8CA0, 0x8CAC, 0x4EBA, 0x662F, 0x003F]\<rparr>]"

text \<open>
  \<^verbatim>\<open>onExampleClicked: (value: string) => void\<close>: a procedure that returns nothing and
  acts on the caller's side of the program. Its effect is a change of the caller's
  state, of an arbitrary type \<open>'w\<close>.
\<close>

type_synonym 'w handler = "jsstring \<Rightarrow> 'w \<Rightarrow> 'w"

subsection \<open>The rendered structure\<close>

text \<open>
  The element \<^verbatim>\<open><Example text={x.text} value={x.value} onClick={onExampleClicked} />\<close>
  carries three attributes: the two fields of an entry and the handler. The handler's
  type is left open here, so that what the renderer does with it does not depend on
  what a handler is.
\<close>

record 'h ExampleProps = ExampleModel +
  onClick :: 'h

text \<open>\<^verbatim>\<open><li key={i}> ... </li>\<close> with its single child.\<close>

record 'h li =
  key :: nat
  child :: "'h ExampleProps"

text \<open>\<^verbatim>\<open><ul className={styles.examplesNavList}> ... </ul>\<close>\<close>

record 'h ul =
  className :: jsstring
  children :: "'h li list"

text \<open>
  \<^verbatim>\<open>import styles from "./Example.module.css"\<close>: the style sheet is not part of the
  sources at hand, so the class name it exports is a parameter of the renderer.
\<close>

record Example_module_css =
  examplesNavList :: jsstring

subsection \<open>The renderer\<close>

text \<open>
  The body of \<^verbatim>\<open>ExampleList\<close>, over an arbitrary array in the place of \<^verbatim>\<open>EXAMPLES\<close>:
  \<^verbatim>\<open>es.map((x, i) => <li key={i}><Example ... /></li>)\<close> inside the list element.
\<close>

definition ExampleList_of :: "Example_module_css \<Rightarrow> ExampleModel list \<Rightarrow> 'h \<Rightarrow> 'h ul" where
  "ExampleList_of styles es onExampleClicked =
     \<lparr>className = examplesNavList styles,
      children =
        map (\<lambda>(i, x). \<lparr>key = i,
                        child = \<lparr>text = text x, value = value x, onClick = onExampleClicked\<rparr>\<rparr>)
            (enumerate 0 es)\<rparr>"

text \<open>The component as exported: the renderer over the constant collection.\<close>

definition ExampleList :: "Example_module_css \<Rightarrow> 'h \<Rightarrow> 'h ul" where
  "ExampleList styles onExampleClicked = ExampleList_of styles EXAMPLES onExampleClicked"

subsection \<open>The item component\<close>

text \<open>
  Modelled from the spec: the component \<^verbatim>\<open>Example\<close> is imported from \<^verbatim>\<open>./Example\<close>,
  which is not among the sources. The specification says of each item that it displays
  \<^verbatim>\<open>displayText\<close>, the \<^verbatim>\<open>text\<close> attribute.
\<close>

definition Example_displayed :: "'h ExampleProps \<Rightarrow> jsstring" where
  "Example_displayed props = text props"

text \<open>
  Modelled from the spec: the component \<^verbatim>\<open>Example\<close> is imported from \<^verbatim>\<open>./Example\<close>,
  which is not among the sources. The specification says of each item that, when
  activated, it invokes \<^verbatim>\<open>onSelect(value)\<close> exactly once per activation: one call of
  the handler attribute on the value attribute.
\<close>

definition Example_activate :: "('w handler) ExampleProps \<Rightarrow> 'w \<Rightarrow> 'w" where
  "Example_activate props w = onClick props (value props) w"

text \<open>
  Activating the item at position \<open>i\<close> of a rendered list. A position with no item
  has nothing to activate: the result is \<open>None\<close>.
\<close>

definition activate :: "('w handler) ul \<Rightarrow> nat \<Rightarrow> 'w \<Rightarrow> 'w option" where
  "activate u i w =
     (if i < length (children u) then Some (Example_activate (child (children u ! i)) w)
      else None)"

text \<open>
  A handler that only records the argument of each call, in call order. With it the
  caller's state is the list of the calls made so far.
\<close>

definition recording :: "(jsstring list) handler" where
  "recording v calls = calls @ [v]"

subsection \<open>The running component\<close>

text \<open>
  The state of a running page, as far as this module is concerned: the array bound to
  \<^verbatim>\<open>EXAMPLES\<close>, the list that is on screen (none before the first render), and the
  caller's state, on which the handlers act.
\<close>

record 'w process =
  examples :: "ExampleModel list"
  mounted :: "('w handler) ul option"
  world :: 'w

datatype 'w event = Render "'w handler" | Activate nat

definition init :: "'w \<Rightarrow> 'w process" where
  "init w = \<lparr>examples = EXAMPLES, mounted = None, world = w\<rparr>"

text \<open>
  A render reads the array and puts its output on screen. An activation runs the
  activated item on the caller's state; with nothing on screen, or no item at that
  position, nothing happens.
\<close>

fun step :: "Example_module_css \<Rightarrow> 'w process \<Rightarrow> 'w event \<Rightarrow> 'w process" where
  "step styles p (Render cb) = p\<lparr>mounted := Some (ExampleList_of styles (examples p) cb)\<rparr>"
| "step styles p (Activate i) =
     (case mounted p of
        None \<Rightarrow> p
      | Some u \<Rightarrow> (case activate u i (world p) of
                     None \<Rightarrow> p
                   | Some w' \<Rightarrow> p\<lparr>world := w'\<rparr>))"

definition run :: "Example_module_css \<Rightarrow> 'w process \<Rightarrow> 'w event list \<Rightarrow> 'w process" where
  "run styles p evs = foldl (step styles) p evs"

section \<open>Properties\<close>

subsection \<open>Auxiliary facts\<close>

lemma EXAMPLES_length: "length EXAMPLES = 3"
  by (simp add: EXAMPLES_def)

lemma children_length: "length (children (ExampleList_of styles es cb)) = length es"
  by (simp add: ExampleList_of_def)

lemma children_nth:
  assumes "i < length es"
  shows "children (ExampleList_of styles es cb) ! i =
           \<lparr>key = i, child = \<lparr>text = text (es ! i), value = value (es ! i), onClick = cb\<rparr>\<rparr>"
  using assms by (simp add: ExampleList_of_def nth_enumerate_eq)

lemma activate_rendered:
  assumes "i < length es"
  shows "activate (ExampleList_of styles es cb) i w = Some (cb (value (es ! i)) w)"
  using assms by (simp add: activate_def children_length children_nth Example_activate_def)

lemma step_examples: "examples (step styles p ev) = examples p"
  by (cases ev) (simp_all split: option.splits)

lemma run_examples: "examples (run styles p evs) = examples p"
  unfolding run_def by (induction evs arbitrary: p) (simp_all add: step_examples)

lemma step_Activate_mounted: "mounted (step styles p (Activate i)) = mounted p"
  by (simp split: option.splits)

lemma rendered_keys: "map key (children (ExampleList_of styles es cb)) = [0..<length es]"
  by (rule nth_equalityI) (simp_all add: children_length children_nth)

subsection \<open>Activation\<close>

text \<open>
  Claim C1. For every position \<open>i\<close> of the example collection and every handler, activating
  the \<open>i\<close>-th rendered item is one call of that handler on the value of the \<open>i\<close>-th entry:
  the caller's state afterwards is the handler's result on it. With the recording handler
  the list of calls grows by exactly that one value, so there is no second call and no
  call with another entry's value.
\<close>

theorem activation_calls_handler_once:
  assumes "i < length EXAMPLES"
  shows "activate (ExampleList styles onExampleClicked) i w =
           Some (onExampleClicked (value (EXAMPLES ! i)) w)
         \<and> activate (ExampleList styles recording) i calls =
             Some (calls @ [value (EXAMPLES ! i)])"
  using assms unfolding ExampleList_def
  by (simp add: activate_rendered recording_def)

theorem activation_calls_handler_once_witness:
  "(1::nat) < length EXAMPLES
   \<and> activate (ExampleList \<lparr>examplesNavList = [0x6E, 0x61, 0x76]\<rparr> recording) 1 [] =
       Some [[0x5C55, 0x7881, 0x570B, 0x969B, 0x7684, 0x6838, 0x5FC3, 0x50F9, 0x503C, 0x003F]]"
proof -
  have lt: "(1::nat) < length EXAMPLES"
    by (simp add: EXAMPLES_length)
  have v: "value (EXAMPLES ! 1) = [0x5C55, 0x7881, 0x570B, 0x969B, 0x7684, 0x6838, 0x5FC3, 0x50F9, 0x503C, 0x003F]"
    by (simp add: EXAMPLES_def)
  from activation_calls_handler_once [OF lt, of "\<lparr>examplesNavList = [0x6E, 0x61, 0x76]\<rparr>" recording "[]" "[]"]
  show ?thesis using lt v by (simp add: recording_def)
qed

subsection \<open>Count, order and content of the rendered items\<close>

text \<open>
  Claim C2. For every collection of \<open>N\<close> entries the renderer produces exactly \<open>N\<close> items,
  and the \<open>i\<close>-th item carries the text and the value of the \<open>i\<close>-th entry: rendering
  keeps the count and the order.
\<close>

theorem render_count_and_order:
  "length (children (ExampleList_of styles es onExampleClicked)) = length es
   \<and> (\<forall>i < length es.
        text (child (children (ExampleList_of styles es onExampleClicked) ! i)) = text (es ! i)
        \<and> value (child (children (ExampleList_of styles es onExampleClicked) ! i)) =
            value (es ! i))"
  by (simp add: children_length children_nth)

theorem render_count_and_order_witness:
  "length (children (ExampleList_of \<lparr>examplesNavList = [0x6E, 0x61, 0x76]\<rparr> EXAMPLES recording)) = 3
   \<and> (2::nat) < length EXAMPLES
   \<and> text (child (children (ExampleList_of \<lparr>examplesNavList = [0x6E, 0x61, 0x76]\<rparr> EXAMPLES recording) ! 2)) =
       [0x5C55, 0x7881, 0x570B, 0x969B, 0x7684, 0x8CA0, 0x8CAC, 0x4EBA, 0x662F, 0x003F]"
proof -
  have lt: "(2::nat) < length EXAMPLES"
    by (simp add: EXAMPLES_length)
  have t: "text (EXAMPLES ! 2) = [0x5C55, 0x7881, 0x570B, 0x969B, 0x7684, 0x8CA0, 0x8CAC, 0x4EBA, 0x662F, 0x003F]"
    by (simp add: EXAMPLES_def)
  from render_count_and_order [of "\<lparr>examplesNavList = [0x6E, 0x61, 0x76]\<rparr>" EXAMPLES recording]
  show ?thesis using lt t by (simp add: EXAMPLES_length)
qed

text \<open>
  Claim C3. For every position \<open>i\<close> of the example collection, the text attribute of the
  \<open>i\<close>-th rendered item, which is the text the item displays, is the \<open>text\<close> field of the
  \<open>i\<close>-th entry.
\<close>

theorem displayed_text:
  assumes "i < length EXAMPLES"
  shows "text (child (children (ExampleList styles onExampleClicked) ! i)) = text (EXAMPLES ! i)
         \<and> Example_displayed (child (children (ExampleList styles onExampleClicked) ! i)) =
             text (EXAMPLES ! i)"
  using assms unfolding ExampleList_def
  by (simp add: children_nth Example_displayed_def)

theorem displayed_text_witness:
  "(0::nat) < length EXAMPLES
   \<and> Example_displayed (child (children (ExampleList \<lparr>examplesNavList = [0x6E, 0x61, 0x76]\<rparr> recording) ! 0)) =
       [0x8ACB, 0x544A, 0x8A34, 0x6211, 0x5C55, 0x7881, 0x570B, 0x969B, 0x7684, 0x516C, 0x53F8, 0x6982, 0x6CC1]"
proof -
  have lt: "(0::nat) < length EXAMPLES"
    by (simp add: EXAMPLES_length)
  have t: "text (EXAMPLES ! 0) = [0x8ACB, 0x544A, 0x8A34, 0x6211, 0x5C55, 0x7881, 0x570B, 0x969B, 0x7684, 0x516C, 0x53F8, 0x6982, 0x6CC1]"
    by (simp add: EXAMPLES_def)
  from displayed_text [OF lt, of "\<lparr>examplesNavList = [0x6E, 0x61, 0x76]\<rparr>" recording]
  show ?thesis using lt t by simp
qed

text \<open>
  Claim C4. The concrete scenario: the collection of the three questions is the constant
  of the module; rendering it gives three items, keyed 0, 1, 2, in the order of the
  collection; and activating the second item (position 1) calls the handler once, on the
  second question: the recording handler, started with no calls, ends with exactly that
  one.
\<close>

theorem concrete_scenario:
  "(let es = [\<lparr>text = [0x8ACB, 0x544A, 0x8A34, 0x6211, 0x5C55, 0x7881, 0x570B, 0x969B, 0x7684, 0x516C, 0x53F8, 0x6982, 0x6CC1],
               value = [0x8ACB, 0x544A, 0x8A34, 0x6211, 0x5C55, 0x7881, 0x570B, 0x969B, 0x7684, 0x516C, 0x53F8, 0x6982, 0x6CC1]\<rparr>,
              \<lparr>text = [0x5C55, 0x7881, 0x570B, 0x969B, 0x7684, 0x6838, 0x5FC3, 0x50F9, 0x503C, 0x003F],
               value = [0x5C55, 0x7881, 0x570B, 0x969B, 0x7684, 0x6838, 0x5FC3, 0x50F9, 0x503C, 0x003F]\<rparr>,
              \<lparr>text = [0x5C55, 0x7881, 0x570B, 0x969B, 0x7684, 0x8CA0, 0x8CAC, 0x4EBA, 0x662F, 0x003F],
               value = [0x5C55, 0x7881, 0x570B, 0x969B, 0x7684, 0x8CA0, 0x8CAC, 0x4EBA, 0x662F, 0x003F]\<rparr>]
    in EXAMPLES = es
     \<and> children (ExampleList_of styles es onExampleClicked) =
         [\<lparr>key = 0,
           child = \<lparr>text = [0x8ACB, 0x544A, 0x8A34, 0x6211, 0x5C55, 0x7881, 0x570B, 0x969B, 0x7684, 0x516C, 0x53F8, 0x6982, 0x6CC1],
                    value = [0x8ACB, 0x544A, 0x8A34, 0x6211, 0x5C55, 0x7881, 0x570B, 0x969B, 0x7684, 0x516C, 0x53F8, 0x6982, 0x6CC1],
                    onClick = onExampleClicked\<rparr>\<rparr>,
          \<lparr>key = 1,
           child = \<lparr>text = [0x5C55, 0x7881, 0x570B, 0x969B, 0x7684, 0x6838, 0x5FC3, 0x50F9, 0x503C, 0x003F],
                    value = [0x5C55, 0x7881, 0x570B, 0x969B, 0x7684, 0x6838, 0x5FC3, 0x50F9, 0x503C, 0x003F],
                    onClick = onExampleClicked\<rparr>\<rparr>,
          \<lparr>key = 2,
           child = \<lparr>text = [0x5C55, 0x7881, 0x570B, 0x969B, 0x7684, 0x8CA0, 0x8CAC, 0x4EBA, 0x662F, 0x003F],
                    value = [0x5C55, 0x7881, 0x570B, 0x969B, 0x7684, 0x8CA0, 0x8CAC, 0x4EBA, 0x662F, 0x003F],
                    onClick = onExampleClicked\<rparr>\<rparr>]
     \<and> activate (ExampleList_of styles es onExampleClicked) 1 w =
         Some (onExampleClicked [0x5C55, 0x7881, 0x570B, 0x969B, 0x7684, 0x6838, 0x5FC3, 0x50F9, 0x503C, 0x003F] w)
     \<and> activate (ExampleList_of styles es recording) 1 [] =
         Some [[0x5C55, 0x7881, 0x570B, 0x969B, 0x7684, 0x6838, 0x5FC3, 0x50F9, 0x503C, 0x003F]])"
  by (simp add: Let_def EXAMPLES_def ExampleList_of_def enumerate_eq_zip
        upt_rec [of 0] upt_rec [of 1] upt_rec [of 2]
        activate_def Example_activate_def recording_def)

subsection \<open>Rendering as a function of the collection and the handler\<close>

text \<open>
  Claim C5. Rendering is deterministic: two renders with the same array behind
  \<^verbatim>\<open>EXAMPLES\<close> and the same handler put the same structure on screen, whatever the
  caller's state and whatever was on screen before.
\<close>

theorem render_deterministic:
  assumes "examples p = examples q"
  shows "mounted (step styles p (Render onExampleClicked)) =
         mounted (step styles q (Render onExampleClicked))"
  using assms by simp

theorem render_deterministic_witness:
  "examples (init ([] :: jsstring list)) = examples (run \<lparr>examplesNavList = [0x6E, 0x61, 0x76]\<rparr> (init ([] :: jsstring list)) [Render recording, Activate 1])
   \<and> mounted (step \<lparr>examplesNavList = [0x6E, 0x61, 0x76]\<rparr> (init ([] :: jsstring list)) (Render recording)) =
       mounted (step \<lparr>examplesNavList = [0x6E, 0x61, 0x76]\<rparr> (run \<lparr>examplesNavList = [0x6E, 0x61, 0x76]\<rparr> (init ([] :: jsstring list)) [Render recording, Activate 1]) (Render recording))"
proof -
  have ex: "examples (init ([] :: jsstring list)) = examples (run \<lparr>examplesNavList = [0x6E, 0x61, 0x76]\<rparr> (init ([] :: jsstring list)) [Render recording, Activate 1])"
    by (simp add: run_examples)
  from render_deterministic [OF ex, of "\<lparr>examplesNavList = [0x6E, 0x61, 0x76]\<rparr>" recording]
  show ?thesis using ex by simp
qed

subsection \<open>The collection\<close>

text \<open>
  Claim C6. The example collection is a constant of the process: it has exactly three
  entries, so it is not empty, and after any sequence of renders and activations the
  array behind \<^verbatim>\<open>EXAMPLES\<close> is still its initial value.
\<close>

theorem collection_constant:
  "length EXAMPLES = 3 \<and> EXAMPLES \<noteq> []
   \<and> examples (run styles (init w) evs) = EXAMPLES"
  by (simp add: run_examples init_def EXAMPLES_def)

text \<open>
  Claim C7. In every entry of the collection as this source defines it, the text and the
  value are the same string.
\<close>

theorem text_equals_value:
  "\<forall>e \<in> set EXAMPLES. text e = value e"
  by (simp add: EXAMPLES_def)

theorem text_equals_value_witness:
  "EXAMPLES ! 1 \<in> set EXAMPLES
   \<and> text (EXAMPLES ! 1) = [0x5C55, 0x7881, 0x570B, 0x969B, 0x7684, 0x6838, 0x5FC3, 0x50F9, 0x503C, 0x003F]
   \<and> value (EXAMPLES ! 1) = [0x5C55, 0x7881, 0x570B, 0x969B, 0x7684, 0x6838, 0x5FC3, 0x50F9, 0x503C, 0x003F]"
proof -
  have m: "EXAMPLES ! 1 \<in> set EXAMPLES"
    by (rule nth_mem) (simp add: EXAMPLES_length)
  have t: "text (EXAMPLES ! 1) = [0x5C55, 0x7881, 0x570B, 0x969B, 0x7684, 0x6838, 0x5FC3, 0x50F9, 0x503C, 0x003F]"
    by (simp add: EXAMPLES_def)
  from text_equals_value m have "text (EXAMPLES ! 1) = value (EXAMPLES ! 1)"
    by (rule bspec)
  with m t show ?thesis by simp
qed

subsection \<open>Frame of an activation\<close>

text \<open>
  Claim C8. Activating item \<open>i\<close> leaves the rendered output of every other item \<open>j\<close>
  as it was: after the activation the same number of items is on screen and the one at
  position \<open>j\<close> is the one that was there before.
\<close>

theorem activation_frame:
  assumes "mounted p = Some u" and "j < length (children u)" and "j \<noteq> i"
  shows "\<exists>u'. mounted (step styles p (Activate i)) = Some u'
              \<and> length (children u') = length (children u)
              \<and> children u' ! j = children u ! j"
  using assms by (simp split: option.splits)

theorem activation_frame_witness:
  "mounted (step \<lparr>examplesNavList = [0x6E, 0x61, 0x76]\<rparr> (init []) (Render recording)) = Some (ExampleList \<lparr>examplesNavList = [0x6E, 0x61, 0x76]\<rparr> recording)
   \<and> (2::nat) < length (children (ExampleList \<lparr>examplesNavList = [0x6E, 0x61, 0x76]\<rparr> recording))
   \<and> (2::nat) \<noteq> 1
   \<and> (\<exists>u'. mounted (step \<lparr>examplesNavList = [0x6E, 0x61, 0x76]\<rparr> (step \<lparr>examplesNavList = [0x6E, 0x61, 0x76]\<rparr> (init []) (Render recording)) (Activate 1)) = Some u'
            \<and> length (children u') = 3
            \<and> children u' ! 2 = children (ExampleList \<lparr>examplesNavList = [0x6E, 0x61, 0x76]\<rparr> recording) ! 2)"
proof -
  have m: "mounted (step \<lparr>examplesNavList = [0x6E, 0x61, 0x76]\<rparr> (init []) (Render recording)) = Some (ExampleList \<lparr>examplesNavList = [0x6E, 0x61, 0x76]\<rparr> recording)"
    by (simp add: init_def ExampleList_def)
  have lt: "(2::nat) < length (children (ExampleList \<lparr>examplesNavList = [0x6E, 0x61, 0x76]\<rparr> recording))"
    by (simp add: ExampleList_def children_length EXAMPLES_length)
  have ne: "(2::nat) \<noteq> 1"
    by simp
  have n: "length (children (ExampleList \<lparr>examplesNavList = [0x6E, 0x61, 0x76]\<rparr> recording)) = 3"
    by (simp add: ExampleList_def children_length EXAMPLES_length)
  from activation_frame [OF m lt ne, of "\<lparr>examplesNavList = [0x6E, 0x61, 0x76]\<rparr>"]
  have "\<exists>u'. mounted (step \<lparr>examplesNavList = [0x6E, 0x61, 0x76]\<rparr> (step \<lparr>examplesNavList = [0x6E, 0x61, 0x76]\<rparr> (init []) (Render recording)) (Activate 1)) = Some u'
            \<and> length (children u') = 3
            \<and> children u' ! 2 = children (ExampleList \<lparr>examplesNavList = [0x6E, 0x61, 0x76]\<rparr> recording) ! 2"
    by (simp only: n)
  with m lt ne show ?thesis
    by (intro conjI)
qed

subsection \<open>Keys and handlers of the items\<close>

text \<open>
  Claim C9. Every rendered list item is keyed by its position in the collection: the keys
  of the items, in order, are \<open>0, ..., N - 1\<close>, and so pairwise distinct.
\<close>

theorem keys_are_positions:
  "map key (children (ExampleList styles onExampleClicked)) = [0..<length EXAMPLES]
   \<and> distinct (map key (children (ExampleList styles onExampleClicked)))"
  unfolding ExampleList_def by (simp add: rendered_keys)

text \<open>
  Claim C10. The renderer hands the one handler it received to every item as it is: for
  every position \<open>i\<close>, the handler attribute of the \<open>i\<close>-th item is the handler given to
  the renderer.
\<close>

theorem handler_forwarded:
  assumes "i < length EXAMPLES"
  shows "onClick (child (children (ExampleList styles onExampleClicked) ! i)) = onExampleClicked"
  using assms unfolding ExampleList_def by (simp add: children_nth)

theorem handler_forwarded_witness:
  "(2::nat) < length EXAMPLES
   \<and> onClick (child (children (ExampleList \<lparr>examplesNavList = [0x6E, 0x61, 0x76]\<rparr> recording) ! 2)) = recording"
proof -
  have lt: "(2::nat) < length EXAMPLES"
    by (simp add: EXAMPLES_length)
  from handler_forwarded [OF lt, of "\<lparr>examplesNavList = [0x6E, 0x61, 0x76]\<rparr>" recording]
  show ?thesis using lt by simp
qed

end
